theory Spec2Isabelle
  imports Main
begin

section \<open>The user table (src/models/user.py)\<close>

text \<open>
  A \<open>datetime\<close> is kept abstract: a point on the time line. Strings stand for Python
  \<open>str\<close> values; \<open>encode("utf-8")\<close> and \<open>decode("utf-8")\<close> are inverse to each other
  and are not written out.
\<close>

type_synonym timestamp = int

datatype exn = ValueError | AttributeError

text \<open>
  The values that occur in the dictionary of \<open>safe_dict\<close>; \<open>JIso t\<close> is the string
  \<open>t.isoformat()\<close>.
\<close>

datatype json = JNull | JInt int | JStr string | JIso timestamp

text \<open>
  What a timestamp attribute of a \<open>User\<close> object holds: a \<open>datetime\<close>, or a JSON
  value of a request body kept as it came (\<open>Raw\<close>; see \<open>User_from_body\<close>).
\<close>

datatype stamp = Datetime timestamp | Raw json

text \<open>
  The fields of \<open>class User\<close>, with the types of their annotations. The field \<open>id\<close>
  is written \<open>id'\<close>.
\<close>

record User =
  id' :: "int option"
  email :: string
  password :: string
  first_name :: "string option"
  last_name :: "string option"
  account_created :: "stamp option"
  account_updated :: "stamp option"

definition json_of_str :: "string option \<Rightarrow> json" where
  "json_of_str x = (case x of None \<Rightarrow> JNull | Some v \<Rightarrow> JStr v)"

definition json_of_int :: "int option \<Rightarrow> json" where
  "json_of_int x = (case x of None \<Rightarrow> JNull | Some v \<Rightarrow> JInt v)"

text \<open>
  \<open>safe_dict\<close>: the dictionary is built entry by entry; \<open>isoformat\<close> called on
  \<open>None\<close>, or on a value that is not a \<open>datetime\<close>, raises \<open>AttributeError\<close>.
\<close>

definition safe_dict :: "User \<Rightarrow> exn + (string \<times> json) list" where
  "safe_dict self =
     (case account_created self of
        Some (Datetime c) \<Rightarrow>
          (case account_updated self of
             Some (Datetime u) \<Rightarrow>
               Inr [(''id'', json_of_int (id' self)),
                    (''email'', JStr (email self)),
                    (''first_name'', json_of_str (first_name self)),
                    (''last_name'', json_of_str (last_name self)),
                    (''account_created'', JIso c),
                    (''account_updated'', JIso u)]
           | _ \<Rightarrow> Inl AttributeError)
      | _ \<Rightarrow> Inl AttributeError)"

text \<open>
  The two timestamp fields are declared with
  \<open>Field(default=datetime.now(timezone.utc))\<close>: each default is one value, computed
  when the class body runs (at import). The same value is the default of the field
  and the default of the table column.
\<close>

record User_class =
  created_default :: timestamp
  updated_default :: timestamp

text \<open>
  A request body bound to \<open>User\<close> by the framework. \<open>User\<close> is a table model, and
  a table model is built from the body without validation: a timestamp that the body
  gives stays the JSON value it is (\<open>null\<close> is \<open>None\<close>), and one that the body leaves
  out takes the default of the class. The strings and the \<open>id\<close> of the body are
  taken to be of the annotated types; an \<open>id\<close> that is left out or \<open>null\<close> is
  \<open>None\<close>.
\<close>

datatype 'a supplied = Omitted | Given 'a

record UserBody =
  body_id :: "int option"
  body_email :: string
  body_password :: string
  body_first_name :: "string option"
  body_last_name :: "string option"
  body_account_created :: "json supplied"
  body_account_updated :: "json supplied"

definition bind_stamp :: "timestamp \<Rightarrow> json supplied \<Rightarrow> stamp option" where
  "bind_stamp d x =
     (case x of
        Omitted \<Rightarrow> Some (Datetime d)
      | Given j \<Rightarrow> if j = JNull then None else Some (Raw j))"

definition User_from_body :: "User_class \<Rightarrow> UserBody \<Rightarrow> User" where
  "User_from_body cls b =
     \<lparr>id' = body_id b,
      email = body_email b,
      password = body_password b,
      first_name = body_first_name b,
      last_name = body_last_name b,
      account_created = bind_stamp (created_default cls) (body_account_created b),
      account_updated = bind_stamp (updated_default cls) (body_account_updated b)\<rparr>"

section \<open>The store (src/db.py)\<close>

text \<open>
  A session is the table behind it and the outcomes the connection will give to the
  round trips still to come: \<open>True\<close> is a round trip on which the driver raises. Every
  function of \<open>db.py\<close> catches what the session raises and returns its failure value.
\<close>

record Session =
  rows :: "User list"
  faults :: "bool list"

definition roundtrip :: "Session \<Rightarrow> bool \<times> Session" where
  "roundtrip s =
     (case faults s of
        [] \<Rightarrow> (False, s)
      | f # fs \<Rightarrow> (f, s\<lparr>faults := fs\<rparr>))"

text \<open>
  What makes the engine refuse an \<open>INSERT\<close>. The constraints of the table as
  \<open>class User\<close> declares them: \<open>id\<close> is the primary key, \<open>email\<close> is unique,
  \<open>first_name\<close> and \<open>last_name\<close> are not nullable (\<open>email\<close> and \<open>password\<close> are
  not nullable either; their type has no \<open>None\<close>). And the values the SQLite engine
  of the test-suite cannot bind: a key outside the 64-bit integers, and, for a
  \<open>DateTime\<close> column, a value that is not a \<open>datetime\<close>.
\<close>

definition is_raw :: "stamp option \<Rightarrow> bool" where
  "is_raw x = (case x of Some (Raw j) \<Rightarrow> True | _ \<Rightarrow> False)"

definition violates :: "User \<Rightarrow> User list \<Rightarrow> bool" where
  "violates u rs =
     (first_name u = None \<or> last_name u = None \<or>
      email u \<in> set (map email rs) \<or>
      (case id' u of
         None \<Rightarrow> False
       | Some i \<Rightarrow> Some i \<in> set (map id' rs) \<or> i < - (2 ^ 63) \<or> 2 ^ 63 \<le> i) \<or>
      is_raw (account_created u) \<or> is_raw (account_updated u))"

text \<open>
  A row inserted without a key gets one from the engine: one more than the largest
  key of the table (1 in an empty table), as the SQLite engine of the test-suite
  assigns it.
\<close>

definition key_of :: "User \<Rightarrow> int" where
  "key_of u = (case id' u of None \<Rightarrow> 0 | Some i \<Rightarrow> i)"

definition next_id :: "User list \<Rightarrow> int" where
  "next_id rs = (case map key_of rs of [] \<Rightarrow> 1 | k # ks \<Rightarrow> fold max ks k + 1)"

text \<open>
  A timestamp attribute that is \<open>None\<close> is left out of the \<open>INSERT\<close> by the ORM,
  and the column takes its default.
\<close>

definition fill :: "timestamp \<Rightarrow> stamp option \<Rightarrow> stamp option" where
  "fill d x = (case x of None \<Rightarrow> Some (Datetime d) | Some v \<Rightarrow> Some v)"

definition create_user :: "User_class \<Rightarrow> User \<Rightarrow> Session \<Rightarrow> bool \<times> Session" where
  "create_user cls new_user session =
     (let (failed, s1) = roundtrip session in
      if failed \<or> violates new_user (rows s1) then (False, s1)
      else
        (True,
         s1\<lparr>rows := rows s1 @
           [new_user\<lparr>id' :=
              Some (case id' new_user of None \<Rightarrow> next_id (rows s1) | Some i \<Rightarrow> i),
              account_created := fill (created_default cls) (account_created new_user),
              account_updated := fill (updated_default cls) (account_updated new_user)\<rparr>]\<rparr>))"

definition get_user_from_email :: "string \<Rightarrow> Session \<Rightarrow> User option \<times> Session" where
  "get_user_from_email addr session =
     (let (failed, s1) = roundtrip session in
      if failed then (None, s1)
      else (find (\<lambda>u. email u = addr) (rows s1), s1))"

text \<open>
  \<open>update_user_with_id\<close>: \<open>session.get\<close>, the three \<open>setattr\<close> and the timestamp,
  \<open>commit\<close> (an \<open>UPDATE ... WHERE id = user_id\<close>, refused when it would store a
  \<open>NULL\<close> name), \<open>refresh\<close>. The handler passes \<open>user_from_db.id\<close>, an optional
  integer; for \<open>None\<close> \<open>session.get\<close> loads nothing.
\<close>

definition assign :: "User \<Rightarrow> timestamp \<Rightarrow> User \<Rightarrow> User" where
  "assign user now existing_user =
     existing_user\<lparr>first_name := first_name user,
                    last_name := last_name user,
                    password := password user,
                    account_updated := Some (Datetime now)\<rparr>"

definition update_user_with_id ::
  "int option \<Rightarrow> User \<Rightarrow> timestamp \<Rightarrow> Session \<Rightarrow> User option \<times> Session" where
  "update_user_with_id user_id user now session =
     (case user_id of
        None \<Rightarrow> (None, session)
      | Some k \<Rightarrow>
          (let (failed, s1) = roundtrip session in
           if failed then (None, s1)
           else
             (case find (\<lambda>u. id' u = Some k) (rows s1) of
                None \<Rightarrow> (None, s1)
              | Some existing_user \<Rightarrow>
                  (let (failed2, s2) = roundtrip s1 in
                   if failed2 \<or> first_name user = None \<or> last_name user = None
                   then (None, s2)
                   else
                     (let s3 = s2\<lparr>rows :=
                                 map (\<lambda>u. if id' u = Some k then assign user now u else u)
                                   (rows s2)\<rparr>;
                          (failed3, s4) = roundtrip s3
                      in if failed3 then (None, s4)
                         else (Some (assign user now existing_user), s4))))))"

section \<open>The handlers (src/api.py)\<close>

text \<open>
  \<open>bcrypt\<close> is a library outside the repository: the handlers are defined for any
  implementation of its two functions, each of which may raise. The salt that
  \<open>gensalt()\<close> draws and the time that \<open>datetime.now\<close> reads are arguments.
\<close>

record bcrypt =
  hashpw :: "string \<Rightarrow> string \<Rightarrow> exn + string"
  checkpw :: "string \<Rightarrow> string \<Rightarrow> exn + bool"

record HTTPBasicCredentials =
  username :: string
  cred_password :: string

record UpdateRequest =
  req_password :: "string option"
  req_last_name :: "string option"
  req_first_name :: "string option"

text \<open>The length constraints of \<open>UpdateRequest\<close>, checked before the handler runs.\<close>

definition min_length :: "nat \<Rightarrow> string option \<Rightarrow> bool" where
  "min_length n x = (case x of None \<Rightarrow> True | Some v \<Rightarrow> n \<le> length v)"

definition UpdateRequest_valid :: "UpdateRequest \<Rightarrow> bool" where
  "UpdateRequest_valid r =
     (min_length 8 (req_password r) \<and> min_length 1 (req_last_name r) \<and>
      min_length 1 (req_first_name r))"

record Response =
  status_code :: nat
  headers :: "(string \<times> string) list"
  content :: "(string \<times> json) list option"

text \<open>The responses the handlers build.\<close>

abbreviation unauthorized :: Response where
  "unauthorized \<equiv>
     \<lparr>status_code = 401, headers = [(''WWW-Authenticate'', ''Basic'')], content = None\<rparr>"

abbreviation ok_200 :: Response where
  "ok_200 \<equiv> \<lparr>status_code = 200, headers = [], content = None\<rparr>"

abbreviation created_201 :: Response where
  "created_201 \<equiv> \<lparr>status_code = 201, headers = [], content = None\<rparr>"

abbreviation unavailable_503 :: Response where
  "unavailable_503 \<equiv> \<lparr>status_code = 503, headers = [], content = None\<rparr>"

definition signup ::
  "User_class \<Rightarrow> bcrypt \<Rightarrow> string \<Rightarrow> User \<Rightarrow> Session \<Rightarrow> (exn + Response) \<times> Session" where
  "signup cls lib salt new_user session =
     (case hashpw lib (password new_user) salt of
        Inl e \<Rightarrow> (Inl e, session)
      | Inr h \<Rightarrow>
          (let (res, s1) = create_user cls (new_user\<lparr>password := h\<rparr>) session in
           if res then (Inr \<lparr>status_code = 201, headers = [], content = None\<rparr>, s1)
           else (Inr \<lparr>status_code = 503, headers = [], content = None\<rparr>, s1)))"

text \<open>The route \<open>POST /signup/\<close>: the body is bound to \<open>User\<close>, then the handler runs.\<close>

definition post_signup ::
  "User_class \<Rightarrow> bcrypt \<Rightarrow> string \<Rightarrow> UserBody \<Rightarrow> Session
     \<Rightarrow> (exn + Response) \<times> Session" where
  "post_signup cls lib salt body session =
     signup cls lib salt (User_from_body cls body) session"

definition login ::
  "bcrypt \<Rightarrow> HTTPBasicCredentials \<Rightarrow> Session \<Rightarrow> (exn + Response) \<times> Session" where
  "login lib credentials session =
     (let (user, s1) = get_user_from_email (username credentials) session in
      case user of
        None \<Rightarrow>
          (Inr \<lparr>status_code = 401, headers = [(''WWW-Authenticate'', ''Basic'')],
                content = None\<rparr>, s1)
      | Some u \<Rightarrow>
          (case checkpw lib (cred_password credentials) (password u) of
             Inl e \<Rightarrow> (Inl e, s1)
           | Inr ok \<Rightarrow>
               if ok then (Inr \<lparr>status_code = 200, headers = [], content = None\<rparr>, s1)
               else
                 (Inr \<lparr>status_code = 401, headers = [(''WWW-Authenticate'', ''Basic'')],
                       content = None\<rparr>, s1)))"

definition get_current_user ::
  "bcrypt \<Rightarrow> HTTPBasicCredentials \<Rightarrow> Session \<Rightarrow> (exn + Response) \<times> Session" where
  "get_current_user lib credentials session =
     (let (user, s1) = get_user_from_email (username credentials) session in
      case user of
        None \<Rightarrow>
          (Inr \<lparr>status_code = 401, headers = [(''WWW-Authenticate'', ''Basic'')],
                content = None\<rparr>, s1)
      | Some u \<Rightarrow>
          (case checkpw lib (cred_password credentials) (password u) of
             Inl e \<Rightarrow> (Inl e, s1)
           | Inr ok \<Rightarrow>
               if ok then
                 (case safe_dict u of
                    Inl e \<Rightarrow> (Inl e, s1)
                  | Inr d \<Rightarrow>
                      (Inr \<lparr>status_code = 200, headers = [], content = Some d\<rparr>, s1))
               else
                 (Inr \<lparr>status_code = 401, headers = [(''WWW-Authenticate'', ''Basic'')],
                       content = None\<rparr>, s1)))"

text \<open>
  \<open>update_user\<close>: a field of the request is taken when it is truthy (given and not
  empty). The \<open>User\<close> built for the store gets the three keyword arguments;
  \<open>update_user_with_id\<close> reads no other field of it.
\<close>

definition truthy :: "string option \<Rightarrow> bool" where
  "truthy x = (case x of None \<Rightarrow> False | Some v \<Rightarrow> v \<noteq> [])"

definition update_user ::
  "bcrypt \<Rightarrow> string \<Rightarrow> timestamp \<Rightarrow> HTTPBasicCredentials \<Rightarrow> UpdateRequest \<Rightarrow> Session
     \<Rightarrow> (exn + Response) \<times> Session" where
  "update_user lib salt now credentials new_user session =
     (let (user_from_db, s1) = get_user_from_email (username credentials) session in
      case user_from_db of
        None \<Rightarrow>
          (Inr \<lparr>status_code = 401, headers = [(''WWW-Authenticate'', ''Basic'')],
                content = None\<rparr>, s1)
      | Some u \<Rightarrow>
          (case checkpw lib (cred_password credentials) (password u) of
             Inl e \<Rightarrow> (Inl e, s1)
           | Inr ok \<Rightarrow>
               if ok then
                 (case (case req_password new_user of
                          None \<Rightarrow> Inr (password u)
                        | Some p \<Rightarrow> if p \<noteq> [] then hashpw lib p salt else Inr (password u)) of
                    Inl e \<Rightarrow> (Inl e, s1)
                  | Inr pw \<Rightarrow>
                      (let (res, s2) =
                         update_user_with_id (id' u)
                           \<lparr>id' = None, email = [], password = pw,
                            first_name = (if truthy (req_first_name new_user)
                                          then req_first_name new_user else first_name u),
                            last_name = (if truthy (req_last_name new_user)
                                         then req_last_name new_user else last_name u),
                            account_created = None, account_updated = None\<rparr>
                           now s1
                       in if res \<noteq> None
                          then (Inr \<lparr>status_code = 200, headers = [], content = None\<rparr>, s2)
                          else
                            (Inr \<lparr>status_code = 401,
                                  headers = [(''WWW-Authenticate'', ''Basic'')],
                                  content = None\<rparr>, s2)))
               else
                 (Inr \<lparr>status_code = 401, headers = [(''WWW-Authenticate'', ''Basic'')],
                       content = None\<rparr>, s1)))"

section \<open>Reading a response\<close>

definition body_keys :: "exn + Response \<Rightarrow> string list" where
  "body_keys r =
     (case r of
        Inl e \<Rightarrow> []
      | Inr resp \<Rightarrow> (case content resp of None \<Rightarrow> [] | Some d \<Rightarrow> map fst d))"

section \<open>A library instance and a table to run the handlers on\<close>

text \<open>
  A stand-in for the hashing library, to run the handlers on concrete requests: the
  hashed form is the salt and the plaintext behind \<open>$\<close> signs (no secrecy is meant),
  and verification raises \<open>ValueError\<close> on a stored value that is not in that form, as
  \<open>bcrypt.checkpw\<close> does on a value that is not a bcrypt hash.
\<close>

definition demo_hashpw :: "string \<Rightarrow> string \<Rightarrow> exn + string" where
  "demo_hashpw p salt = Inr (CHR ''$'' # salt @ CHR ''$'' # p)"

definition demo_checkpw :: "string \<Rightarrow> string \<Rightarrow> exn + bool" where
  "demo_checkpw p h =
     (case h of
        [] \<Rightarrow> Inl ValueError
      | c # rest \<Rightarrow>
          if c = CHR ''$'' \<and> CHR ''$'' \<in> set rest
          then Inr (drop 1 (dropWhile (\<lambda>x. x \<noteq> CHR ''$'') rest) = p)
          else Inl ValueError)"

definition demo_bcrypt :: bcrypt where
  "demo_bcrypt = \<lparr>hashpw = demo_hashpw, checkpw = demo_checkpw\<rparr>"

definition alice :: User where
  "alice =
     \<lparr>id' = Some 1, email = ''a@x.com'', password = ''$ab$longenough1'',
      first_name = Some ''A'', last_name = Some ''B'',
      account_created = Some (Datetime 1000), account_updated = Some (Datetime 1000)\<rparr>"

definition alice_body :: UserBody where
  "alice_body =
     \<lparr>body_id = None, body_email = ''a@x.com'', body_password = ''longenough1'',
      body_first_name = Some ''A'', body_last_name = Some ''B'',
      body_account_created = Omitted, body_account_updated = Omitted\<rparr>"

definition alice_credentials :: HTTPBasicCredentials where
  "alice_credentials = \<lparr>username = ''a@x.com'', cred_password = ''longenough1''\<rparr>"

definition empty_table :: Session where
  "empty_table = \<lparr>rows = [], faults = []\<rparr>"

definition alice_table :: Session where
  "alice_table = \<lparr>rows = [alice], faults = []\<rparr>"

definition alice_renamed :: User where
  "alice_renamed =
     alice\<lparr>first_name := Some ''Z'', account_updated := Some (Datetime 2000)\<rparr>"

definition alice_touched :: User where
  "alice_touched = alice\<lparr>account_updated := Some (Datetime 2000)\<rparr>"

definition corrupt_table :: Session where
  "corrupt_table = \<lparr>rows = [alice\<lparr>password := ''not-a-hash''\<rparr>], faults = []\<rparr>"

definition rename_request :: UpdateRequest where
  "rename_request =
     \<lparr>req_password = None, req_last_name = None, req_first_name = Some ''Z''\<rparr>"

definition no_fields :: UpdateRequest where
  "no_fields = \<lparr>req_password = None, req_last_name = None, req_first_name = None\<rparr>"

definition password_request :: UpdateRequest where
  "password_request =
     \<lparr>req_password = Some ''newpassword1'', req_last_name = None, req_first_name = None\<rparr>"




section \<open>Lookups in the table\<close>

lemma find_unique:
  "distinct (map f xs) \<Longrightarrow> x \<in> set xs \<Longrightarrow> find (\<lambda>u. f u = f x) xs = Some x"
  by (induction xs) (auto simp: image_iff)

lemma find_none: "a \<notin> set (map f xs) \<Longrightarrow> find (\<lambda>u. f u = a) xs = None"
  by (induction xs) auto

lemma rows_roundtrip: "rows (snd (roundtrip s)) = rows s"
  by (simp add: roundtrip_def split: list.splits)

lemma lookup_fault:
  "fst (roundtrip s) \<Longrightarrow> fst (get_user_from_email a s) = None"
  by (cases "roundtrip s") (simp add: get_user_from_email_def)

lemma lookup_runs:
  "\<not> fst (roundtrip s) \<Longrightarrow>
   fst (get_user_from_email a s) = find (\<lambda>u. email u = a) (rows s)"
  using rows_roundtrip [of s]
  by (cases "roundtrip s") (simp add: get_user_from_email_def)

lemma login_by_lookup:
  "fst (login lib c s) =
     (case fst (get_user_from_email (username c) s) of
        None \<Rightarrow> Inr unauthorized
      | Some u \<Rightarrow>
          (case checkpw lib (cred_password c) (password u) of
             Inl e \<Rightarrow> Inl e
           | Inr ok \<Rightarrow> Inr (if ok then ok_200 else unauthorized)))"
  by (cases "get_user_from_email (username c) s")
    (simp add: login_def split: option.splits sum.splits)

lemma me_by_lookup:
  "fst (get_current_user lib c s) =
     (case fst (get_user_from_email (username c) s) of
        None \<Rightarrow> Inr unauthorized
      | Some u \<Rightarrow>
          (case checkpw lib (cred_password c) (password u) of
             Inl e \<Rightarrow> Inl e
           | Inr ok \<Rightarrow>
               if ok then
                 (case safe_dict u of
                    Inl e \<Rightarrow> Inl e
                  | Inr d \<Rightarrow> Inr \<lparr>status_code = 200, headers = [], content = Some d\<rparr>)
               else Inr unauthorized))"
  by (cases "get_user_from_email (username c) s")
    (simp add: get_current_user_def split: option.splits sum.splits)

lemma put_no_user:
  "fst (get_user_from_email (username c) s) = None \<Longrightarrow>
   fst (update_user lib salt now c r s) = Inr unauthorized"
  by (cases "get_user_from_email (username c) s") (simp add: update_user_def)

lemma put_checked:
  "fst (get_user_from_email (username c) s) = Some u \<Longrightarrow>
   checkpw lib (cred_password c) (password u) = Inr False \<Longrightarrow>
   fst (update_user lib salt now c r s) = Inr unauthorized"
  by (cases "get_user_from_email (username c) s") (simp add: update_user_def)

lemma put_raises:
  "fst (get_user_from_email (username c) s) = Some u \<Longrightarrow>
   checkpw lib (cred_password c) (password u) = Inl e \<Longrightarrow>
   fst (update_user lib salt now c r s) = Inl e"
  by (cases "get_user_from_email (username c) s") (simp add: update_user_def)

lemma lookup_session: "snd (get_user_from_email a s) = snd (roundtrip s)"
  by (cases "roundtrip s") (simp add: get_user_from_email_def)

lemma put_verified:
  assumes "fst (get_user_from_email (username c) s) = Some u"
    and "checkpw lib (cred_password c) (password u) = Inr True"
    and "(case req_password r of
            None \<Rightarrow> Inr (password u)
          | Some p \<Rightarrow> if p \<noteq> [] then hashpw lib p salt else Inr (password u)) = Inr pw"
  shows "fst (update_user lib salt now c r s) =
     Inr (if fst (update_user_with_id (id' u)
                   \<lparr>id' = None, email = [], password = pw,
                    first_name = (if truthy (req_first_name r)
                                  then req_first_name r else first_name u),
                    last_name = (if truthy (req_last_name r)
                                 then req_last_name r else last_name u),
                    account_created = None, account_updated = None\<rparr>
                   now (snd (get_user_from_email (username c) s))) \<noteq> None
          then ok_200 else unauthorized)"
proof -
  obtain x s1 where g: "get_user_from_email (username c) s = (x, s1)"
    by (cases "get_user_from_email (username c) s")
  with assms(1) have x: "x = Some u" by simp
  obtain res s2 where
    up: "update_user_with_id (id' u)
           \<lparr>id' = None, email = [], password = pw,
            first_name = (if truthy (req_first_name r)
                          then req_first_name r else first_name u),
            last_name = (if truthy (req_last_name r)
                         then req_last_name r else last_name u),
            account_created = None, account_updated = None\<rparr>
           now s1 = (res, s2)"
    by (rule prod.exhaust)
  from g x assms(2,3) up show ?thesis
    by (simp add: update_user_def)
qed

section \<open>Authentication\<close>

text \<open>
  Claim C1, as amended. The three handlers that re-check credentials decide in the
  same way. When the lookup fails or no row has the claimed email, the answer is 401
  with \<open>WWW-Authenticate: Basic\<close>, whatever the library would say (it is not asked).
  When a row has that email (emails are unique in the table): if verification returns
  false, the answer is the same 401; if verification raises, the exception leaves the
  handler; if verification returns true, \<open>GET /login\<close> answers 200, \<open>GET /me\<close>
  answers with the projection of that row, and \<open>PUT /me\<close>, once the new password is
  hashed, runs the update under the key of that row and answers 200 when the update
  returns a record.
\<close>

theorem authentication_outcome:
  "(fst (roundtrip session) \<or> username credentials \<notin> set (map email (rows session)) \<longrightarrow>
      fst (login lib credentials session) = Inr unauthorized \<and>
      fst (get_current_user lib credentials session) = Inr unauthorized \<and>
      fst (update_user lib salt now credentials new_user session) = Inr unauthorized) \<and>
   (\<forall>u. \<not> fst (roundtrip session) \<and> distinct (map email (rows session)) \<and>
        u \<in> set (rows session) \<and> email u = username credentials \<longrightarrow>
      (checkpw lib (cred_password credentials) (password u) = Inr False \<longrightarrow>
         fst (login lib credentials session) = Inr unauthorized \<and>
         fst (get_current_user lib credentials session) = Inr unauthorized \<and>
         fst (update_user lib salt now credentials new_user session) = Inr unauthorized) \<and>
      (\<forall>e. checkpw lib (cred_password credentials) (password u) = Inl e \<longrightarrow>
         fst (login lib credentials session) = Inl e \<and>
         fst (get_current_user lib credentials session) = Inl e \<and>
         fst (update_user lib salt now credentials new_user session) = Inl e) \<and>
      (checkpw lib (cred_password credentials) (password u) = Inr True \<longrightarrow>
         fst (login lib credentials session) = Inr ok_200 \<and>
         fst (get_current_user lib credentials session) =
           (case safe_dict u of
              Inl e \<Rightarrow> Inl e
            | Inr d \<Rightarrow> Inr \<lparr>status_code = 200, headers = [], content = Some d\<rparr>) \<and>
         (\<forall>pw.
            (case req_password new_user of
               None \<Rightarrow> Inr (password u)
             | Some p \<Rightarrow> if p \<noteq> [] then hashpw lib p salt else Inr (password u)) = Inr pw \<longrightarrow>
            fst (update_user lib salt now credentials new_user session) =
              Inr (if fst (update_user_with_id (id' u)
                            \<lparr>id' = None, email = [], password = pw,
                             first_name = (if truthy (req_first_name new_user)
                                           then req_first_name new_user else first_name u),
                             last_name = (if truthy (req_last_name new_user)
                                          then req_last_name new_user else last_name u),
                             account_created = None, account_updated = None\<rparr>
                            now (snd (get_user_from_email (username credentials) session)))
                        \<noteq> None
                   then ok_200 else unauthorized))))"
proof (intro conjI impI allI)
  assume a: "fst (roundtrip session) \<or> username credentials \<notin> set (map email (rows session))"
  have none: "fst (get_user_from_email (username credentials) session) = None"
  proof (cases "fst (roundtrip session)")
    case True
    then show ?thesis by (rule lookup_fault)
  next
    case False
    with a have "username credentials \<notin> set (map email (rows session))" by simp
    then show ?thesis using False by (simp add: lookup_runs find_none)
  qed
  show "fst (login lib credentials session) = Inr unauthorized"
    by (simp add: login_by_lookup none)
  show "fst (get_current_user lib credentials session) = Inr unauthorized"
    by (simp add: me_by_lookup none)
  show "fst (update_user lib salt now credentials new_user session) = Inr unauthorized"
    by (rule put_no_user [OF none])
next
  fix u
  assume h: "\<not> fst (roundtrip session) \<and> distinct (map email (rows session)) \<and>
        u \<in> set (rows session) \<and> email u = username credentials"
  then have found: "fst (get_user_from_email (username credentials) session) = Some u"
    using find_unique [of email "rows session" u] by (simp add: lookup_runs)
  {
    assume c: "checkpw lib (cred_password credentials) (password u) = Inr False"
    show "fst (login lib credentials session) = Inr unauthorized"
      by (simp add: login_by_lookup found c)
    show "fst (get_current_user lib credentials session) = Inr unauthorized"
      by (simp add: me_by_lookup found c)
    show "fst (update_user lib salt now credentials new_user session) = Inr unauthorized"
      by (rule put_checked [OF found c])
  }
  {
    fix e
    assume c: "checkpw lib (cred_password credentials) (password u) = Inl e"
    show "fst (login lib credentials session) = Inl e"
      by (simp add: login_by_lookup found c)
    show "fst (get_current_user lib credentials session) = Inl e"
      by (simp add: me_by_lookup found c)
    show "fst (update_user lib salt now credentials new_user session) = Inl e"
      by (rule put_raises [OF found c])
  }
  {
    assume c: "checkpw lib (cred_password credentials) (password u) = Inr True"
    show "fst (login lib credentials session) = Inr ok_200"
      by (simp add: login_by_lookup found c)
    show "fst (get_current_user lib credentials session) =
           (case safe_dict u of
              Inl e \<Rightarrow> Inl e
            | Inr d \<Rightarrow> Inr \<lparr>status_code = 200, headers = [], content = Some d\<rparr>)"
      by (simp add: me_by_lookup found c)
    fix pw
    assume p: "(case req_password new_user of
               None \<Rightarrow> Inr (password u)
             | Some p \<Rightarrow> if p \<noteq> [] then hashpw lib p salt else Inr (password u)) = Inr pw"
    show "fst (update_user lib salt now credentials new_user session) =
              Inr (if fst (update_user_with_id (id' u)
                            \<lparr>id' = None, email = [], password = pw,
                             first_name = (if truthy (req_first_name new_user)
                                           then req_first_name new_user else first_name u),
                             last_name = (if truthy (req_last_name new_user)
                                          then req_last_name new_user else last_name u),
                             account_created = None, account_updated = None\<rparr>
                            now (snd (get_user_from_email (username credentials) session)))
                        \<noteq> None
                   then ok_200 else unauthorized)"
      by (rule put_verified [OF found c p])
  }
qed

theorem authentication_outcome_witness:
  "\<not> fst (roundtrip alice_table) \<and> distinct (map email (rows alice_table)) \<and>
   alice \<in> set (rows alice_table) \<and> email alice = username alice_credentials \<and>
   checkpw demo_bcrypt (cred_password alice_credentials) (password alice) = Inr True \<and>
   fst (login demo_bcrypt alice_credentials alice_table) = Inr ok_200 \<and>
   fst (update_user demo_bcrypt ''cd'' 2000 alice_credentials rename_request alice_table) =
     Inr ok_200 \<and>
   ''b@x.com'' \<notin> set (map email (rows alice_table)) \<and>
   fst (login demo_bcrypt \<lparr>username = ''b@x.com'', cred_password = ''longenough1''\<rparr>
          alice_table) = Inr unauthorized \<and>
   checkpw demo_bcrypt (cred_password alice_credentials)
     (password (alice\<lparr>password := ''not-a-hash''\<rparr>)) = Inl ValueError \<and>
   fst (get_current_user demo_bcrypt alice_credentials corrupt_table) = Inl ValueError"
proof -
  have h: "\<not> fst (roundtrip alice_table) \<and> distinct (map email (rows alice_table)) \<and>
      alice \<in> set (rows alice_table) \<and> email alice = username alice_credentials"
    by (simp add: roundtrip_def alice_table_def alice_def alice_credentials_def)
  have c: "checkpw demo_bcrypt (cred_password alice_credentials) (password alice) = Inr True"
    by (simp add: demo_bcrypt_def demo_checkpw_def alice_credentials_def alice_def)
  have n: "''b@x.com'' \<notin> set (map email (rows alice_table))"
    by (simp add: alice_table_def alice_def)
  have n': "fst (roundtrip alice_table) \<or>
      username \<lparr>username = ''b@x.com'', cred_password = ''longenough1''\<rparr>
        \<notin> set (map email (rows alice_table))"
    using n by simp
  have p: "(case req_password rename_request of
               None \<Rightarrow> Inr (password alice)
             | Some p \<Rightarrow> if p \<noteq> [] then hashpw demo_bcrypt p ''cd'' else Inr (password alice))
           = Inr (password alice)"
    by (simp add: rename_request_def)
  have r: "fst (update_user_with_id (id' alice)
                 \<lparr>id' = None, email = [], password = password alice,
                  first_name = (if truthy (req_first_name rename_request)
                                then req_first_name rename_request else first_name alice),
                  last_name = (if truthy (req_last_name rename_request)
                               then req_last_name rename_request else last_name alice),
                  account_created = None, account_updated = None\<rparr>
                 2000 (snd (get_user_from_email (username alice_credentials) alice_table)))
           \<noteq> None"
    by (simp add: update_user_with_id_def get_user_from_email_def roundtrip_def
        alice_table_def alice_def rename_request_def truthy_def)
  have hc: "\<not> fst (roundtrip corrupt_table) \<and> distinct (map email (rows corrupt_table)) \<and>
      alice\<lparr>password := ''not-a-hash''\<rparr> \<in> set (rows corrupt_table) \<and>
      email (alice\<lparr>password := ''not-a-hash''\<rparr>) = username alice_credentials"
    by (simp add: roundtrip_def corrupt_table_def alice_def alice_credentials_def)
  have cc: "checkpw demo_bcrypt (cred_password alice_credentials)
      (password (alice\<lparr>password := ''not-a-hash''\<rparr>)) = Inl ValueError"
    by (simp add: demo_bcrypt_def demo_checkpw_def)
  from authentication_outcome [of alice_table alice_credentials demo_bcrypt] h c
  have 1: "fst (login demo_bcrypt alice_credentials alice_table) = Inr ok_200"
    by blast
  from authentication_outcome
    [of alice_table alice_credentials demo_bcrypt "''cd''" 2000 rename_request] h c p
  have "fst (update_user demo_bcrypt ''cd'' 2000 alice_credentials rename_request alice_table) =
      Inr (if fst (update_user_with_id (id' alice)
                 \<lparr>id' = None, email = [], password = password alice,
                  first_name = (if truthy (req_first_name rename_request)
                                then req_first_name rename_request else first_name alice),
                  last_name = (if truthy (req_last_name rename_request)
                               then req_last_name rename_request else last_name alice),
                  account_created = None, account_updated = None\<rparr>
                 2000 (snd (get_user_from_email (username alice_credentials) alice_table)))
           \<noteq> None then ok_200 else unauthorized)"
    by blast
  with r have 2:
    "fst (update_user demo_bcrypt ''cd'' 2000 alice_credentials rename_request alice_table) =
      Inr ok_200"
    by simp
  from authentication_outcome
    [of alice_table "\<lparr>username = ''b@x.com'', cred_password = ''longenough1''\<rparr>" demo_bcrypt] n'
  have 3: "fst (login demo_bcrypt \<lparr>username = ''b@x.com'', cred_password = ''longenough1''\<rparr>
          alice_table) = Inr unauthorized"
    by blast
  from authentication_outcome [of corrupt_table alice_credentials demo_bcrypt] hc cc
  have 4: "fst (get_current_user demo_bcrypt alice_credentials corrupt_table) = Inl ValueError"
    by blast
  from h c n cc 1 2 3 4 show ?thesis by blast
qed

theorem authentication_counterexample:
  "alice\<lparr>password := ''not-a-hash''\<rparr> \<in> set (rows corrupt_table) \<and>
   email (alice\<lparr>password := ''not-a-hash''\<rparr>) = username alice_credentials \<and>
   fst (login demo_bcrypt alice_credentials corrupt_table) \<noteq> Inr ok_200 \<and>
   fst (login demo_bcrypt alice_credentials corrupt_table) \<noteq> Inr unauthorized \<and>
   fst (update_user demo_bcrypt ''cd'' 2000 alice_credentials no_fields corrupt_table) \<noteq>
     Inr ok_200 \<and>
   fst (update_user demo_bcrypt ''cd'' 2000 alice_credentials no_fields corrupt_table) \<noteq>
     Inr unauthorized"
  by (simp add: login_def update_user_def get_user_from_email_def roundtrip_def
      corrupt_table_def alice_def alice_credentials_def demo_bcrypt_def demo_checkpw_def)
section \<open>The store functions\<close>

lemma roundtrip_rows: "roundtrip s = (f, s1) \<Longrightarrow> rows s1 = rows s"
  by (auto simp: roundtrip_def split: list.splits)

lemma find_map_keep:
  "(\<And>u. f (g u) = f u) \<Longrightarrow>
   find (\<lambda>u. f u = a) (map g xs) = map_option g (find (\<lambda>u. f u = a) xs)"
  by (induction xs) auto

lemma find_SomeD: "find P xs = Some x \<Longrightarrow> x \<in> set xs \<and> P x"
  by (induction xs) (auto split: if_splits)

lemma get_user_from_email_Some:
  assumes "get_user_from_email a s = (Some u, s1)"
  shows "find (\<lambda>u. email u = a) (rows s) = Some u \<and> rows s1 = rows s"
proof -
  obtain f t where r: "roundtrip s = (f, t)" by (cases "roundtrip s")
  from roundtrip_rows [OF r] have "rows t = rows s" .
  with assms r show ?thesis
    by (auto simp: get_user_from_email_def split: if_splits)
qed

lemma create_user_eq:
  "create_user cls v s =
     (if fst (roundtrip s) \<or> violates v (rows s) then (False, snd (roundtrip s))
      else (True, (snd (roundtrip s))\<lparr>rows := rows s @
              [v\<lparr>id' := Some (case id' v of None \<Rightarrow> next_id (rows s) | Some i \<Rightarrow> i),
                 account_created := fill (created_default cls) (account_created v),
                 account_updated := fill (updated_default cls) (account_updated v)\<rparr>]\<rparr>))"
proof -
  obtain f t where r: "roundtrip s = (f, t)" by (cases "roundtrip s")
  from roundtrip_rows [OF r] have "rows t = rows s" .
  with r show ?thesis by (simp add: create_user_def cong: option.case_cong)
qed

text \<open>The unique constraint on \<open>email\<close> is kept by an insert.\<close>

lemma create_user_distinct_email:
  "distinct (map email (rows s)) \<Longrightarrow>
   distinct (map email (rows (snd (create_user cls v s))))"
  using rows_roundtrip [of s] by (auto simp: create_user_eq violates_def)

lemma update_user_with_id_Some:
  assumes "update_user_with_id user_id user now s = (Some r, s')"
  shows "\<exists>k old. user_id = Some k \<and> find (\<lambda>u. id' u = Some k) (rows s) = Some old \<and>
           r = assign user now old \<and>
           rows s' = map (\<lambda>u. if id' u = Some k then assign user now u else u) (rows s)"
proof (cases user_id)
  case None
  with assms show ?thesis by (simp add: update_user_with_id_def)
next
  case (Some k)
  obtain f1 s1 where r1: "roundtrip s = (f1, s1)" by (cases "roundtrip s")
  obtain f2 s2 where r2: "roundtrip s1 = (f2, s2)" by (cases "roundtrip s1")
  let ?s3 = "s2\<lparr>rows := map (\<lambda>u. if id' u = Some k then assign user now u else u) (rows s2)\<rparr>"
  obtain f3 s4 where r3: "roundtrip ?s3 = (f3, s4)" by (cases "roundtrip ?s3")
  have e1: "rows s1 = rows s" and e2: "rows s2 = rows s1" and e3: "rows s4 = rows ?s3"
    using r1 r2 r3 by (blast dest: roundtrip_rows)+
  from assms Some r1 r2 r3 e1 e2 e3 show ?thesis
    by (auto simp: update_user_with_id_def Let_def split: if_splits option.splits)
qed

text \<open>
  An update changes no email, so it keeps the unique constraint, and it leaves no
  timestamp unset that was set.
\<close>

lemma update_user_with_id_rows:
  "rows (snd (update_user_with_id user_id user now s)) = rows s \<or>
   (\<exists>k. user_id = Some k \<and>
      rows (snd (update_user_with_id user_id user now s)) =
        map (\<lambda>u. if id' u = Some k then assign user now u else u) (rows s))"
proof (cases user_id)
  case None
  then show ?thesis by (simp add: update_user_with_id_def)
next
  case (Some k)
  obtain f1 s1 where r1: "roundtrip s = (f1, s1)" by (cases "roundtrip s")
  obtain f2 s2 where r2: "roundtrip s1 = (f2, s2)" by (cases "roundtrip s1")
  let ?s3 = "s2\<lparr>rows := map (\<lambda>u. if id' u = Some k then assign user now u else u) (rows s2)\<rparr>"
  obtain f3 s4 where r3: "roundtrip ?s3 = (f3, s4)" by (cases "roundtrip ?s3")
  have e1: "rows s1 = rows s" and e2: "rows s2 = rows s1" and e3: "rows s4 = rows ?s3"
    using r1 r2 r3 by (blast dest: roundtrip_rows)+
  from Some r1 r2 r3 e1 e2 e3 show ?thesis
    by (auto simp: update_user_with_id_def Let_def split: if_splits option.splits)
qed

lemma update_user_with_id_emails:
  "map email (rows (snd (update_user_with_id user_id user now s))) = map email (rows s)"
  using update_user_with_id_rows [of user_id user now s]
  by (auto simp: assign_def)

lemma update_user_with_id_timestamps:
  assumes "list_all (\<lambda>u. \<exists>c t. account_created u = Some (Datetime c) \<and>
                              account_updated u = Some (Datetime t)) (rows s)"
  shows "list_all (\<lambda>u. \<exists>c t. account_created u = Some (Datetime c) \<and>
                            account_updated u = Some (Datetime t))
           (rows (snd (update_user_with_id user_id user now s)))"
  using update_user_with_id_rows [of user_id user now s] assms
  by (auto simp: assign_def list_all_iff)

text \<open>
  When none of its three round trips raises, the key is in the table and both names
  to store are set, the update returns the record.
\<close>

lemma roundtrip_ok:
  assumes "True \<notin> set (take (Suc n) (faults s))"
  shows "\<not> fst (roundtrip s) \<and> True \<notin> set (take n (faults (snd (roundtrip s)))) \<and>
         rows (snd (roundtrip s)) = rows s"
  using assms by (cases "faults s") (auto simp: roundtrip_def)

lemma find_exists: "x \<in> set xs \<Longrightarrow> P x \<Longrightarrow> \<exists>y. find P xs = Some y"
  by (cases "find P xs") (auto simp: find_None_iff)

lemma update_user_with_id_succeeds:
  assumes f: "True \<notin> set (take (Suc (Suc (Suc 0))) (faults s))"
    and k: "find (\<lambda>u. id' u = Some k) (rows s) = Some old"
    and n: "first_name user \<noteq> None" "last_name user \<noteq> None"
  shows "fst (update_user_with_id (Some k) user now s) = Some (assign user now old)"
proof -
  obtain f1 s1 where r1: "roundtrip s = (f1, s1)" by (cases "roundtrip s")
  obtain f2 s2 where r2: "roundtrip s1 = (f2, s2)" by (cases "roundtrip s1")
  let ?s3 = "s2\<lparr>rows := map (\<lambda>u. if id' u = Some k then assign user now u else u) (rows s2)\<rparr>"
  obtain f3 s4 where r3: "roundtrip ?s3 = (f3, s4)" by (cases "roundtrip ?s3")
  from roundtrip_ok [OF f] r1 have
    1: "\<not> f1" "True \<notin> set (take (Suc (Suc 0)) (faults s1))" "rows s1 = rows s"
    by simp_all
  from roundtrip_ok [OF 1(2)] r2 have
    2: "\<not> f2" "True \<notin> set (take (Suc 0) (faults s2))" "rows s2 = rows s1"
    by simp_all
  from 2(2) have "True \<notin> set (take (Suc 0) (faults ?s3))" by simp
  from roundtrip_ok [OF this] r3 have 3: "\<not> f3" by simp
  from r1 r2 r3 1 2 3 k n show ?thesis
    by (simp add: update_user_with_id_def)
qed

section \<open>Profile update\<close>

lemma update_user_200:
  assumes "update_user lib salt now c new_user s = (Inr resp, s')"
    and "status_code resp = 200"
  shows "\<exists>u s1 pw r.
           get_user_from_email (username c) s = (Some u, s1) \<and>
           (case req_password new_user of
              None \<Rightarrow> Inr (password u)
            | Some p \<Rightarrow> if p \<noteq> [] then hashpw lib p salt else Inr (password u)) = Inr pw \<and>
           update_user_with_id (id' u)
             \<lparr>id' = None, email = [], password = pw,
              first_name = (if truthy (req_first_name new_user)
                            then req_first_name new_user else first_name u),
              last_name = (if truthy (req_last_name new_user)
                           then req_last_name new_user else last_name u),
              account_created = None, account_updated = None\<rparr>
             now s1 = (Some r, s')"
proof -
  obtain x s1 where g: "get_user_from_email (username c) s = (x, s1)"
    by (cases "get_user_from_email (username c) s")
  show ?thesis
  proof (cases x)
    case None
    with assms g show ?thesis by (auto simp: update_user_def)
  next
    case (Some u)
    show ?thesis
    proof (cases "checkpw lib (cred_password c) (password u)")
      case (Inl e)
      with assms g Some show ?thesis by (auto simp: update_user_def)
    next
      case (Inr ok)
      show ?thesis
      proof (cases "case req_password new_user of
              None \<Rightarrow> Inr (password u)
            | Some p \<Rightarrow> if p \<noteq> [] then hashpw lib p salt else Inr (password u)")
        case (Inl e)
        with assms g Some Inr show ?thesis
          by (auto simp: update_user_def split: if_splits)
      next
        case pw: (Inr pw)
        obtain res s2 where
          u: "update_user_with_id (id' u)
             \<lparr>id' = None, email = [], password = pw,
              first_name = (if truthy (req_first_name new_user)
                            then req_first_name new_user else first_name u),
              last_name = (if truthy (req_last_name new_user)
                           then req_last_name new_user else last_name u),
              account_created = None, account_updated = None\<rparr>
             now s1 = (res, s2)"
          by (rule prod.exhaust)
        from assms g Some Inr pw u show ?thesis
          by (auto simp: update_user_def split: if_splits)
      qed
    qed
  qed
qed

text \<open>
  Claim C2. When \<open>PUT /me\<close> answers 200 to a request that meets the length
  constraints, the row of the authenticated email has, after the update: for
  \<open>first_name\<close> and \<open>last_name\<close> the value of the request when it gives one and the
  value of the row before otherwise; for \<open>password\<close> the hash that \<open>hashpw\<close> returned
  for the new plaintext when the request gives one and the hash of the row before
  otherwise; and \<open>account_updated\<close> equal to the time of the update. And it does
  answer 200: when none of the four round trips raises, the row of the email has its
  key and both names, the password verifies and the hashing of a new password
  returns. A request that gives no field is such a request.
\<close>

theorem update_user_merge:
  "(\<forall>resp s'.
      update_user lib salt now credentials new_user session = (Inr resp, s') \<and>
      status_code resp = 200 \<and> UpdateRequest_valid new_user \<longrightarrow>
      (\<exists>old new.
         find (\<lambda>u. email u = username credentials) (rows session) = Some old \<and>
         find (\<lambda>u. email u = username credentials) (rows s') = Some new \<and>
         first_name new =
           (case req_first_name new_user of None \<Rightarrow> first_name old | Some v \<Rightarrow> Some v) \<and>
         last_name new =
           (case req_last_name new_user of None \<Rightarrow> last_name old | Some v \<Rightarrow> Some v) \<and>
         (case req_password new_user of
            None \<Rightarrow> password new = password old
          | Some p \<Rightarrow> hashpw lib p salt = Inr (password new)) \<and>
         account_updated new = Some (Datetime now))) \<and>
   (\<forall>u.
      True \<notin> set (take 4 (faults session)) \<and>
      find (\<lambda>x. email x = username credentials) (rows session) = Some u \<and>
      id' u \<noteq> None \<and> first_name u \<noteq> None \<and> last_name u \<noteq> None \<and>
      checkpw lib (cred_password credentials) (password u) = Inr True \<and>
      (\<forall>p. req_password new_user = Some p \<and> p \<noteq> [] \<longrightarrow>
           (\<exists>h. hashpw lib p salt = Inr h)) \<longrightarrow>
      fst (update_user lib salt now credentials new_user session) = Inr ok_200)"
proof (intro conjI allI impI)
  fix resp s'
  assume a: "update_user lib salt now credentials new_user session = (Inr resp, s') \<and>
      status_code resp = 200 \<and> UpdateRequest_valid new_user"
  then have valid: "UpdateRequest_valid new_user" by simp
  from a have "update_user lib salt now credentials new_user session = (Inr resp, s')"
    and "status_code resp = 200" by simp_all
  from update_user_200 [OF this] obtain u s1 pw r where
    g: "get_user_from_email (username credentials) session = (Some u, s1)" and
    pw: "(case req_password new_user of
              None \<Rightarrow> Inr (password u)
            | Some p \<Rightarrow> if p \<noteq> [] then hashpw lib p salt else Inr (password u)) = Inr pw" and
    up: "update_user_with_id (id' u)
             \<lparr>id' = None, email = [], password = pw,
              first_name = (if truthy (req_first_name new_user)
                            then req_first_name new_user else first_name u),
              last_name = (if truthy (req_last_name new_user)
                           then req_last_name new_user else last_name u),
              account_created = None, account_updated = None\<rparr>
             now s1 = (Some r, s')"
    by blast
  let ?p = "\<lparr>id' = None, email = [], password = pw,
              first_name = (if truthy (req_first_name new_user)
                            then req_first_name new_user else first_name u),
              last_name = (if truthy (req_last_name new_user)
                           then req_last_name new_user else last_name u),
              account_created = None, account_updated = None\<rparr>"
  from get_user_from_email_Some [OF g] have
    old: "find (\<lambda>u. email u = username credentials) (rows session) = Some u" and
    same: "rows s1 = rows session" by simp_all
  from update_user_with_id_Some [OF up] obtain k where
    k: "id' u = Some k" and
    rs: "rows s' = map (\<lambda>x. if id' x = Some k then assign ?p now x else x) (rows s1)"
    by blast
  have "find (\<lambda>x. email x = username credentials) (rows s') =
        map_option (\<lambda>x. if id' x = Some k then assign ?p now x else x)
          (find (\<lambda>x. email x = username credentials) (rows s1))"
    unfolding rs by (rule find_map_keep) (simp add: assign_def)
  with old same k have new:
    "find (\<lambda>x. email x = username credentials) (rows s') = Some (assign ?p now u)"
    by simp
  have fn: "first_name (assign ?p now u) =
      (case req_first_name new_user of None \<Rightarrow> first_name u | Some v \<Rightarrow> Some v)"
    using valid
    by (auto simp: assign_def truthy_def UpdateRequest_valid_def min_length_def
        split: option.splits)
  have ln: "last_name (assign ?p now u) =
      (case req_last_name new_user of None \<Rightarrow> last_name u | Some v \<Rightarrow> Some v)"
    using valid
    by (auto simp: assign_def truthy_def UpdateRequest_valid_def min_length_def
        split: option.splits)
  have pwd: "(case req_password new_user of
              None \<Rightarrow> password (assign ?p now u) = password u
            | Some p \<Rightarrow> hashpw lib p salt = Inr (password (assign ?p now u)))"
    using valid pw
    by (auto simp: assign_def UpdateRequest_valid_def min_length_def
        split: option.splits if_splits)
  have au: "account_updated (assign ?p now u) = Some (Datetime now)"
    by (simp add: assign_def)
  from old new fn ln pwd au show "\<exists>old new.
         find (\<lambda>u. email u = username credentials) (rows session) = Some old \<and>
         find (\<lambda>u. email u = username credentials) (rows s') = Some new \<and>
         first_name new =
           (case req_first_name new_user of None \<Rightarrow> first_name old | Some v \<Rightarrow> Some v) \<and>
         last_name new =
           (case req_last_name new_user of None \<Rightarrow> last_name old | Some v \<Rightarrow> Some v) \<and>
         (case req_password new_user of
            None \<Rightarrow> password new = password old
          | Some p \<Rightarrow> hashpw lib p salt = Inr (password new)) \<and>
         account_updated new = Some (Datetime now)"
    by blast
next
  fix u
  assume a: "True \<notin> set (take 4 (faults session)) \<and>
      find (\<lambda>x. email x = username credentials) (rows session) = Some u \<and>
      id' u \<noteq> None \<and> first_name u \<noteq> None \<and> last_name u \<noteq> None \<and>
      checkpw lib (cred_password credentials) (password u) = Inr True \<and>
      (\<forall>p. req_password new_user = Some p \<and> p \<noteq> [] \<longrightarrow>
           (\<exists>h. hashpw lib p salt = Inr h))"
  then have f: "True \<notin> set (take (Suc (Suc (Suc (Suc 0)))) (faults session))"
    by (simp add: eval_nat_numeral)
  from roundtrip_ok [OF f] have
    r: "\<not> fst (roundtrip session)"
      "True \<notin> set (take (Suc (Suc (Suc 0))) (faults (snd (roundtrip session))))"
      "rows (snd (roundtrip session)) = rows session"
    by simp_all
  from a r(1) have found: "fst (get_user_from_email (username credentials) session) = Some u"
    by (simp add: lookup_runs)
  from a obtain k where k: "id' u = Some k" by auto
  from a have "u \<in> set (rows session)" by (blast dest: find_SomeD)
  with k r(3) obtain old where
    old: "find (\<lambda>x. id' x = Some k) (rows (snd (roundtrip session))) = Some old"
    using find_exists [of u "rows session" "\<lambda>x. id' x = Some k"] by auto
  have "\<exists>pw. (case req_password new_user of
              None \<Rightarrow> Inr (password u)
            | Some p \<Rightarrow> if p \<noteq> [] then hashpw lib p salt else Inr (password u)) = Inr pw"
  proof (cases "req_password new_user")
    case None
    then show ?thesis by simp
  next
    case (Some p)
    show ?thesis
    proof (cases "p = []")
      case True
      with Some show ?thesis by simp
    next
      case False
      with a Some obtain h where "hashpw lib p salt = Inr h" by blast
      with Some False show ?thesis by simp
    qed
  qed
  then obtain pw where
    pw: "(case req_password new_user of
              None \<Rightarrow> Inr (password u)
            | Some p \<Rightarrow> if p \<noteq> [] then hashpw lib p salt else Inr (password u)) = Inr pw"
    by blast
  let ?p = "\<lparr>id' = None, email = [], password = pw,
              first_name = (if truthy (req_first_name new_user)
                            then req_first_name new_user else first_name u),
              last_name = (if truthy (req_last_name new_user)
                           then req_last_name new_user else last_name u),
              account_created = None, account_updated = None\<rparr>"
  from a have names: "first_name ?p \<noteq> None" "last_name ?p \<noteq> None"
    by (auto simp: truthy_def split: option.splits)
  from update_user_with_id_succeeds [OF r(2) old names]
  have "fst (update_user_with_id (id' u) ?p now
               (snd (get_user_from_email (username credentials) session))) \<noteq> None"
    by (simp add: k lookup_session)
  moreover from a have c: "checkpw lib (cred_password credentials) (password u) = Inr True"
    by simp
  ultimately show "fst (update_user lib salt now credentials new_user session) = Inr ok_200"
    using put_verified [OF found c pw] by simp
qed

theorem update_user_merge_witness:
  "fst (update_user demo_bcrypt ''cd'' 2000 alice_credentials rename_request alice_table) =
     Inr ok_200 \<and>
   (\<exists>old new.
      find (\<lambda>u. email u = username alice_credentials) (rows alice_table) = Some old \<and>
      find (\<lambda>u. email u = username alice_credentials)
        (rows (snd (update_user demo_bcrypt ''cd'' 2000 alice_credentials rename_request
                      alice_table))) = Some new \<and>
      first_name new = Some ''Z'' \<and> last_name new = last_name old \<and>
      password new = password old \<and> account_updated new = Some (Datetime 2000)) \<and>
   fst (update_user demo_bcrypt ''cd'' 2000 alice_credentials password_request alice_table) =
     Inr ok_200 \<and>
   (\<exists>old new.
      find (\<lambda>u. email u = username alice_credentials) (rows alice_table) = Some old \<and>
      find (\<lambda>u. email u = username alice_credentials)
        (rows (snd (update_user demo_bcrypt ''cd'' 2000 alice_credentials password_request
                      alice_table))) = Some new \<and>
      first_name new = first_name old \<and> last_name new = last_name old \<and>
      password new = ''$cd$newpassword1'' \<and> account_updated new = Some (Datetime 2000)) \<and>
   fst (update_user demo_bcrypt ''cd'' 2000 alice_credentials no_fields alice_table) =
     Inr ok_200 \<and>
   (\<exists>old new.
      find (\<lambda>u. email u = username alice_credentials) (rows alice_table) = Some old \<and>
      find (\<lambda>u. email u = username alice_credentials)
        (rows (snd (update_user demo_bcrypt ''cd'' 2000 alice_credentials no_fields
                      alice_table))) = Some new \<and>
      first_name new = first_name old \<and> last_name new = last_name old \<and>
      password new = password old \<and> account_updated new = Some (Datetime 2000))"
proof -
  have f: "True \<notin> set (take 4 (faults alice_table))"
    by (simp add: alice_table_def)
  have g: "find (\<lambda>x. email x = username alice_credentials) (rows alice_table) = Some alice"
    by (simp add: alice_table_def alice_def alice_credentials_def)
  have k: "id' alice \<noteq> None \<and> first_name alice \<noteq> None \<and> last_name alice \<noteq> None"
    by (simp add: alice_def)
  have c: "checkpw demo_bcrypt (cred_password alice_credentials) (password alice) = Inr True"
    by (simp add: demo_bcrypt_def demo_checkpw_def alice_credentials_def alice_def)
  have v1: "UpdateRequest_valid rename_request"
    by (simp add: UpdateRequest_valid_def min_length_def rename_request_def)
  have q1: "req_first_name rename_request = Some ''Z'' \<and> req_last_name rename_request = None \<and>
      req_password rename_request = None"
    by (simp add: rename_request_def)
  have h1: "\<forall>p. req_password rename_request = Some p \<and> p \<noteq> [] \<longrightarrow>
      (\<exists>h. hashpw demo_bcrypt p ''cd'' = Inr h)"
    by (simp add: demo_bcrypt_def demo_hashpw_def)
  from update_user_merge [of demo_bcrypt "''cd''" 2000 alice_credentials rename_request alice_table]
    f g k c h1
  have s1: "fst (update_user demo_bcrypt ''cd'' 2000 alice_credentials rename_request alice_table) =
      Inr ok_200"
    by blast
  then have e1: "update_user demo_bcrypt ''cd'' 2000 alice_credentials rename_request alice_table =
      (Inr ok_200,
       snd (update_user demo_bcrypt ''cd'' 2000 alice_credentials rename_request alice_table))"
    by (simp add: prod_eq_iff)
  have st: "status_code ok_200 = 200" by simp
  from update_user_merge [of demo_bcrypt "''cd''" 2000 alice_credentials rename_request alice_table]
    e1 st v1
  have "\<exists>old new.
      find (\<lambda>u. email u = username alice_credentials) (rows alice_table) = Some old \<and>
      find (\<lambda>u. email u = username alice_credentials)
        (rows (snd (update_user demo_bcrypt ''cd'' 2000 alice_credentials rename_request
                      alice_table))) = Some new \<and>
      first_name new =
        (case req_first_name rename_request of None \<Rightarrow> first_name old | Some v \<Rightarrow> Some v) \<and>
      last_name new =
        (case req_last_name rename_request of None \<Rightarrow> last_name old | Some v \<Rightarrow> Some v) \<and>
      (case req_password rename_request of
         None \<Rightarrow> password new = password old
       | Some p \<Rightarrow> hashpw demo_bcrypt p ''cd'' = Inr (password new)) \<and>
      account_updated new = Some (Datetime 2000)"
    by blast
  then have m1: "\<exists>old new.
      find (\<lambda>u. email u = username alice_credentials) (rows alice_table) = Some old \<and>
      find (\<lambda>u. email u = username alice_credentials)
        (rows (snd (update_user demo_bcrypt ''cd'' 2000 alice_credentials rename_request
                      alice_table))) = Some new \<and>
      first_name new = Some ''Z'' \<and> last_name new = last_name old \<and>
      password new = password old \<and> account_updated new = Some (Datetime 2000)"
    using q1 by (simp add: demo_bcrypt_def demo_hashpw_def eq_commute [of "_ # _"])
  have v2: "UpdateRequest_valid password_request"
    by (simp add: UpdateRequest_valid_def min_length_def password_request_def)
  have q2: "req_first_name password_request = None \<and> req_last_name password_request = None \<and>
      req_password password_request = Some ''newpassword1''"
    by (simp add: password_request_def)
  have h2: "\<forall>p. req_password password_request = Some p \<and> p \<noteq> [] \<longrightarrow>
      (\<exists>h. hashpw demo_bcrypt p ''cd'' = Inr h)"
    by (simp add: demo_bcrypt_def demo_hashpw_def)
  from update_user_merge [of demo_bcrypt "''cd''" 2000 alice_credentials password_request alice_table]
    f g k c h2
  have s2: "fst (update_user demo_bcrypt ''cd'' 2000 alice_credentials password_request alice_table) =
      Inr ok_200"
    by blast
  then have e2: "update_user demo_bcrypt ''cd'' 2000 alice_credentials password_request alice_table =
      (Inr ok_200,
       snd (update_user demo_bcrypt ''cd'' 2000 alice_credentials password_request alice_table))"
    by (simp add: prod_eq_iff)
  have st: "status_code ok_200 = 200" by simp
  from update_user_merge [of demo_bcrypt "''cd''" 2000 alice_credentials password_request alice_table]
    e2 st v2
  have "\<exists>old new.
      find (\<lambda>u. email u = username alice_credentials) (rows alice_table) = Some old \<and>
      find (\<lambda>u. email u = username alice_credentials)
        (rows (snd (update_user demo_bcrypt ''cd'' 2000 alice_credentials password_request
                      alice_table))) = Some new \<and>
      first_name new =
        (case req_first_name password_request of None \<Rightarrow> first_name old | Some v \<Rightarrow> Some v) \<and>
      last_name new =
        (case req_last_name password_request of None \<Rightarrow> last_name old | Some v \<Rightarrow> Some v) \<and>
      (case req_password password_request of
         None \<Rightarrow> password new = password old
       | Some p \<Rightarrow> hashpw demo_bcrypt p ''cd'' = Inr (password new)) \<and>
      account_updated new = Some (Datetime 2000)"
    by blast
  then have m2: "\<exists>old new.
      find (\<lambda>u. email u = username alice_credentials) (rows alice_table) = Some old \<and>
      find (\<lambda>u. email u = username alice_credentials)
        (rows (snd (update_user demo_bcrypt ''cd'' 2000 alice_credentials password_request
                      alice_table))) = Some new \<and>
      first_name new = first_name old \<and> last_name new = last_name old \<and>
      password new = ''$cd$newpassword1'' \<and> account_updated new = Some (Datetime 2000)"
    using q2 by (simp add: demo_bcrypt_def demo_hashpw_def eq_commute [of "_ # _"])
  have v3: "UpdateRequest_valid no_fields"
    by (simp add: UpdateRequest_valid_def min_length_def no_fields_def)
  have q3: "req_first_name no_fields = None \<and> req_last_name no_fields = None \<and>
      req_password no_fields = None"
    by (simp add: no_fields_def)
  have h3: "\<forall>p. req_password no_fields = Some p \<and> p \<noteq> [] \<longrightarrow>
      (\<exists>h. hashpw demo_bcrypt p ''cd'' = Inr h)"
    by (simp add: demo_bcrypt_def demo_hashpw_def)
  from update_user_merge [of demo_bcrypt "''cd''" 2000 alice_credentials no_fields alice_table]
    f g k c h3
  have s3: "fst (update_user demo_bcrypt ''cd'' 2000 alice_credentials no_fields alice_table) =
      Inr ok_200"
    by blast
  then have e3: "update_user demo_bcrypt ''cd'' 2000 alice_credentials no_fields alice_table =
      (Inr ok_200,
       snd (update_user demo_bcrypt ''cd'' 2000 alice_credentials no_fields alice_table))"
    by (simp add: prod_eq_iff)
  have st: "status_code ok_200 = 200" by simp
  from update_user_merge [of demo_bcrypt "''cd''" 2000 alice_credentials no_fields alice_table]
    e3 st v3
  have "\<exists>old new.
      find (\<lambda>u. email u = username alice_credentials) (rows alice_table) = Some old \<and>
      find (\<lambda>u. email u = username alice_credentials)
        (rows (snd (update_user demo_bcrypt ''cd'' 2000 alice_credentials no_fields
                      alice_table))) = Some new \<and>
      first_name new =
        (case req_first_name no_fields of None \<Rightarrow> first_name old | Some v \<Rightarrow> Some v) \<and>
      last_name new =
        (case req_last_name no_fields of None \<Rightarrow> last_name old | Some v \<Rightarrow> Some v) \<and>
      (case req_password no_fields of
         None \<Rightarrow> password new = password old
       | Some p \<Rightarrow> hashpw demo_bcrypt p ''cd'' = Inr (password new)) \<and>
      account_updated new = Some (Datetime 2000)"
    by blast
  then have m3: "\<exists>old new.
      find (\<lambda>u. email u = username alice_credentials) (rows alice_table) = Some old \<and>
      find (\<lambda>u. email u = username alice_credentials)
        (rows (snd (update_user demo_bcrypt ''cd'' 2000 alice_credentials no_fields
                      alice_table))) = Some new \<and>
      first_name new = first_name old \<and> last_name new = last_name old \<and>
      password new = password old \<and> account_updated new = Some (Datetime 2000)"
    using q3 by (simp add: demo_bcrypt_def demo_hashpw_def eq_commute [of "_ # _"])
  from s1 m1 s2 m2 s3 m3 show ?thesis by blast
qed

text \<open>
  Claim C8. A successful \<open>update_user_with_id\<close> leaves \<open>id\<close>, \<open>email\<close> and
  \<open>account_created\<close> as they were: the record it returns has these three fields of
  the row that was stored under the key, it is a row of the table afterwards, and
  the three columns of the whole table are the same before and after.
\<close>

theorem update_frame:
  assumes "update_user_with_id user_id user now session = (Some r, s')"
  shows "(\<exists>old. old \<in> set (rows session) \<and> id' old = user_id \<and>
            id' r = id' old \<and> email r = email old \<and>
            account_created r = account_created old) \<and>
         r \<in> set (rows s') \<and>
         map id' (rows s') = map id' (rows session) \<and>
         map email (rows s') = map email (rows session) \<and>
         map account_created (rows s') = map account_created (rows session)"
proof -
  from update_user_with_id_Some [OF assms] obtain k old where
    k: "user_id = Some k" and
    old: "find (\<lambda>u. id' u = Some k) (rows session) = Some old" and
    r: "r = assign user now old" and
    rs: "rows s' = map (\<lambda>u. if id' u = Some k then assign user now u else u) (rows session)"
    by blast
  from find_SomeD [OF old] have mem: "old \<in> set (rows session)" and key: "id' old = Some k"
    by simp_all
  have 1: "\<exists>old. old \<in> set (rows session) \<and> id' old = user_id \<and>
            id' r = id' old \<and> email r = email old \<and>
            account_created r = account_created old"
    using mem key k r by (auto simp: assign_def)
  have 2: "r \<in> set (rows s')"
    using mem key r rs by (force simp: image_iff)
  have 3: "map id' (rows s') = map id' (rows session)"
    by (simp add: rs assign_def)
  have 4: "map email (rows s') = map email (rows session)"
    by (simp add: rs assign_def)
  have 5: "map account_created (rows s') = map account_created (rows session)"
    by (simp add: rs assign_def)
  from 1 2 3 4 5 show ?thesis by blast
qed

theorem update_frame_witness:
  "update_user_with_id (Some 1) (alice\<lparr>first_name := Some ''Z''\<rparr>) 2000 alice_table =
     (Some alice_renamed, \<lparr>rows = [alice_renamed], faults = []\<rparr>) \<and>
   (\<exists>old. old \<in> set (rows alice_table) \<and> id' old = Some 1 \<and>
      id' alice_renamed = id' old \<and> email alice_renamed = email old \<and>
      account_created alice_renamed = account_created old) \<and>
   map id' (rows \<lparr>rows = [alice_renamed], faults = []\<rparr>) = map id' (rows alice_table) \<and>
   map email (rows \<lparr>rows = [alice_renamed], faults = []\<rparr>) = map email (rows alice_table) \<and>
   map account_created (rows \<lparr>rows = [alice_renamed], faults = []\<rparr>) =
     map account_created (rows alice_table)"
proof -
  have e: "update_user_with_id (Some 1) (alice\<lparr>first_name := Some ''Z''\<rparr>) 2000 alice_table =
     (Some alice_renamed, \<lparr>rows = [alice_renamed], faults = []\<rparr>)"
    by (simp add: update_user_with_id_def roundtrip_def assign_def alice_table_def
        alice_renamed_def alice_def)
  from update_frame [OF e] e show ?thesis by blast
qed

section \<open>Signup\<close>

lemma signup_eq:
  "hashpw lib (password u) salt = Inr h \<Longrightarrow>
   signup cls lib salt u s =
     (Inr (if fst (create_user cls (u\<lparr>password := h\<rparr>) s)
           then created_201 else unavailable_503),
      snd (create_user cls (u\<lparr>password := h\<rparr>) s))"
  by (cases "create_user cls (u\<lparr>password := h\<rparr>) s") (simp add: signup_def)




text \<open>Every row that a signup stores has a \<open>datetime\<close> in both timestamp columns.\<close>

lemma fill_datetime: "\<not> is_raw x \<Longrightarrow> \<exists>t. fill d x = Some (Datetime t)"
  by (auto simp: is_raw_def fill_def split: option.splits stamp.splits)

lemma post_signup_timestamps:
  assumes "list_all (\<lambda>u. \<exists>c t. account_created u = Some (Datetime c) \<and>
                              account_updated u = Some (Datetime t)) (rows s)"
  shows "list_all (\<lambda>u. \<exists>c t. account_created u = Some (Datetime c) \<and>
                            account_updated u = Some (Datetime t))
           (rows (snd (post_signup cls lib salt body s)))"
proof (cases "hashpw lib (password (User_from_body cls body)) salt")
  case (Inl e)
  with assms show ?thesis by (simp add: post_signup_def signup_def)
next
  case (Inr h)
  let ?u = "(User_from_body cls body)\<lparr>password := h\<rparr>"
  show ?thesis
  proof (cases "fst (roundtrip s) \<or> violates ?u (rows s)")
    case True
    with assms rows_roundtrip [of s] show ?thesis
      by (simp add: post_signup_def signup_eq [OF Inr] create_user_eq)
  next
    case False
    then have "\<not> is_raw (account_created ?u)" "\<not> is_raw (account_updated ?u)"
      by (simp_all add: violates_def)
    from fill_datetime [OF this(1)] fill_datetime [OF this(2)] False assms
    show ?thesis
      by (auto simp: post_signup_def signup_eq [OF Inr] create_user_eq)
  qed
qed





section \<open>The current user\<close>

lemma safe_dict_keys:
  "safe_dict u = Inr d \<Longrightarrow>
   map fst d = [''id'', ''email'', ''first_name'', ''last_name'', ''account_created'',
     ''account_updated'']"
  by (auto simp: safe_dict_def split: option.splits stamp.splits)

lemma me_cases:
  "fst (get_current_user lib c s) = Inr unauthorized \<or>
   (\<exists>e. fst (get_current_user lib c s) = Inl e) \<or>
   (\<exists>u d. safe_dict u = Inr d \<and>
      fst (get_current_user lib c s) = Inr \<lparr>status_code = 200, headers = [], content = Some d\<rparr>)"
  unfolding me_by_lookup
  by (auto split: option.splits sum.splits)

text \<open>
  Claim C3, as amended. Whatever the request, a response of \<open>GET /me\<close> has no key
  \<open>password\<close>. When the lookup returns a record, the password verifies and both
  timestamps of the record are set, the response is 200 and its body is the object
  with the six keys \<open>id\<close>, \<open>email\<close>, \<open>first_name\<close>, \<open>last_name\<close>,
  \<open>account_created\<close>, \<open>account_updated\<close> of that record.
\<close>

theorem current_user_projection:
  "''password'' \<notin> set (body_keys (fst (get_current_user lib credentials session))) \<and>
   (\<forall>u c t.
      fst (get_user_from_email (username credentials) session) = Some u \<and>
      checkpw lib (cred_password credentials) (password u) = Inr True \<and>
      account_created u = Some (Datetime c) \<and>
      account_updated u = Some (Datetime t) \<longrightarrow>
      fst (get_current_user lib credentials session) =
        Inr \<lparr>status_code = 200, headers = [],
             content = Some [(''id'', json_of_int (id' u)),
                             (''email'', JStr (email u)),
                             (''first_name'', json_of_str (first_name u)),
                             (''last_name'', json_of_str (last_name u)),
                             (''account_created'', JIso c),
                             (''account_updated'', JIso t)]\<rparr>)"
proof
  show "''password'' \<notin> set (body_keys (fst (get_current_user lib credentials session)))"
    using me_cases [of lib credentials session]
    by (auto simp: body_keys_def dest!: safe_dict_keys)
next
  show "\<forall>u c t.
      fst (get_user_from_email (username credentials) session) = Some u \<and>
      checkpw lib (cred_password credentials) (password u) = Inr True \<and>
      account_created u = Some (Datetime c) \<and>
      account_updated u = Some (Datetime t) \<longrightarrow>
      fst (get_current_user lib credentials session) =
        Inr \<lparr>status_code = 200, headers = [],
             content = Some [(''id'', json_of_int (id' u)),
                             (''email'', JStr (email u)),
                             (''first_name'', json_of_str (first_name u)),
                             (''last_name'', json_of_str (last_name u)),
                             (''account_created'', JIso c),
                             (''account_updated'', JIso t)]\<rparr>"
    by (simp add: me_by_lookup safe_dict_def)
qed

theorem current_user_projection_witness:
  "fst (get_user_from_email (username alice_credentials) alice_table) = Some alice \<and>
   checkpw demo_bcrypt (cred_password alice_credentials) (password alice) = Inr True \<and>
   account_created alice = Some (Datetime 1000) \<and>
   account_updated alice = Some (Datetime 1000) \<and>
   fst (get_current_user demo_bcrypt alice_credentials alice_table) =
     Inr \<lparr>status_code = 200, headers = [],
          content = Some [(''id'', JInt 1),
                          (''email'', JStr ''a@x.com''),
                          (''first_name'', JStr ''A''),
                          (''last_name'', JStr ''B''),
                          (''account_created'', JIso 1000),
                          (''account_updated'', JIso 1000)]\<rparr>"
proof -
  have g: "fst (get_user_from_email (username alice_credentials) alice_table) = Some alice"
    by (simp add: get_user_from_email_def roundtrip_def alice_table_def alice_def
        alice_credentials_def)
  have c: "checkpw demo_bcrypt (cred_password alice_credentials) (password alice) = Inr True"
    by (simp add: demo_bcrypt_def demo_checkpw_def alice_credentials_def alice_def)
  have t: "account_created alice = Some (Datetime 1000) \<and>
      account_updated alice = Some (Datetime 1000)"
    by (simp add: alice_def)
  have v: "json_of_int (id' alice) = JInt 1 \<and> email alice = ''a@x.com'' \<and>
      json_of_str (first_name alice) = JStr ''A'' \<and> json_of_str (last_name alice) = JStr ''B''"
    by (simp add: alice_def json_of_int_def json_of_str_def)
  from current_user_projection [of demo_bcrypt alice_credentials alice_table] g c t
  have "fst (get_current_user demo_bcrypt alice_credentials alice_table) =
        Inr \<lparr>status_code = 200, headers = [],
             content = Some [(''id'', json_of_int (id' alice)),
                             (''email'', JStr (email alice)),
                             (''first_name'', json_of_str (first_name alice)),
                             (''last_name'', json_of_str (last_name alice)),
                             (''account_created'', JIso 1000),
                             (''account_updated'', JIso 1000)]\<rparr>"
    by blast
  with g c t v show ?thesis by simp
qed

theorem current_user_body_counterexample:
  "body_keys (fst (get_current_user demo_bcrypt alice_credentials alice_table)) =
     [''id'', ''email'', ''first_name'', ''last_name'', ''account_created'', ''account_updated''] \<and>
   body_keys (fst (get_current_user demo_bcrypt alice_credentials alice_table)) \<noteq>
     [''email'', ''first_name'', ''last_name'', ''account_created'', ''account_updated'']"
  by (simp add: get_current_user_def get_user_from_email_def roundtrip_def alice_table_def
      alice_def alice_credentials_def demo_bcrypt_def demo_checkpw_def safe_dict_def
      body_keys_def)

section \<open>What the handlers do with the outcome of verification\<close>

text \<open>
  Claim C6, as amended. No handler catches what \<open>checkpw\<close> raises: when the lookup
  returns a record and \<open>checkpw\<close> raises on its stored password, \<open>GET /login\<close>,
  \<open>GET /me\<close> and \<open>PUT /me\<close> raise the same exception; when \<open>checkpw\<close> returns
  \<open>False\<close>, the three answer 401 with \<open>WWW-Authenticate: Basic\<close>.
\<close>

theorem verify_outcome_reaches_client:
  "\<forall>u. fst (get_user_from_email (username credentials) session) = Some u \<longrightarrow>
      (\<forall>e. checkpw lib (cred_password credentials) (password u) = Inl e \<longrightarrow>
         fst (login lib credentials session) = Inl e \<and>
         fst (get_current_user lib credentials session) = Inl e \<and>
         fst (update_user lib salt now credentials new_user session) = Inl e) \<and>
      (checkpw lib (cred_password credentials) (password u) = Inr False \<longrightarrow>
         fst (login lib credentials session) = Inr unauthorized \<and>
         fst (get_current_user lib credentials session) = Inr unauthorized \<and>
         fst (update_user lib salt now credentials new_user session) = Inr unauthorized)"
  by (auto simp: login_by_lookup me_by_lookup put_raises put_checked)

theorem verify_outcome_reaches_client_witness:
  "fst (get_user_from_email (username alice_credentials) corrupt_table) =
     Some (alice\<lparr>password := ''not-a-hash''\<rparr>) \<and>
   checkpw demo_bcrypt (cred_password alice_credentials)
     (password (alice\<lparr>password := ''not-a-hash''\<rparr>)) = Inl ValueError \<and>
   fst (update_user demo_bcrypt ''cd'' 2000 alice_credentials no_fields corrupt_table) =
     Inl ValueError \<and>
   fst (get_user_from_email
          (username \<lparr>username = ''a@x.com'', cred_password = ''wrongpassword''\<rparr>)
          alice_table) = Some alice \<and>
   checkpw demo_bcrypt
     (cred_password \<lparr>username = ''a@x.com'', cred_password = ''wrongpassword''\<rparr>)
     (password alice) = Inr False \<and>
   fst (login demo_bcrypt \<lparr>username = ''a@x.com'', cred_password = ''wrongpassword''\<rparr>
          alice_table) = Inr unauthorized"
proof -
  have g1: "fst (get_user_from_email (username alice_credentials) corrupt_table) =
      Some (alice\<lparr>password := ''not-a-hash''\<rparr>)"
    by (simp add: get_user_from_email_def roundtrip_def corrupt_table_def alice_def
        alice_credentials_def)
  have c1: "checkpw demo_bcrypt (cred_password alice_credentials)
      (password (alice\<lparr>password := ''not-a-hash''\<rparr>)) = Inl ValueError"
    by (simp add: demo_bcrypt_def demo_checkpw_def)
  have g2: "fst (get_user_from_email
          (username \<lparr>username = ''a@x.com'', cred_password = ''wrongpassword''\<rparr>)
          alice_table) = Some alice"
    by (simp add: get_user_from_email_def roundtrip_def alice_table_def alice_def)
  have c2: "checkpw demo_bcrypt
      (cred_password \<lparr>username = ''a@x.com'', cred_password = ''wrongpassword''\<rparr>)
      (password alice) = Inr False"
    by (simp add: demo_bcrypt_def demo_checkpw_def alice_def)
  from verify_outcome_reaches_client
    [of alice_credentials corrupt_table demo_bcrypt "''cd''" 2000 no_fields] g1 c1
  have 1: "fst (update_user demo_bcrypt ''cd'' 2000 alice_credentials no_fields corrupt_table) =
      Inl ValueError"
    by blast
  from verify_outcome_reaches_client
    [of "\<lparr>username = ''a@x.com'', cred_password = ''wrongpassword''\<rparr>" alice_table
      demo_bcrypt] g2 c2
  have 2: "fst (login demo_bcrypt \<lparr>username = ''a@x.com'', cred_password = ''wrongpassword''\<rparr>
          alice_table) = Inr unauthorized"
    by blast
  from g1 c1 1 g2 c2 2 show ?thesis by blast
qed

theorem malformed_hash_counterexample:
  "fst (login demo_bcrypt alice_credentials corrupt_table) = Inl ValueError \<and>
   fst (get_current_user demo_bcrypt alice_credentials corrupt_table) = Inl ValueError"
  by (simp add: login_def get_current_user_def get_user_from_email_def roundtrip_def
      corrupt_table_def alice_def alice_credentials_def demo_bcrypt_def demo_checkpw_def)

section \<open>Two paths that miss what the specification says\<close>

text \<open>
  Claim C7. A \<open>PUT /me\<close> with valid credentials whose update fails in the store is
  answered 401 with \<open>WWW-Authenticate: Basic\<close>, not 503: here the lookup runs and the
  next round trip, the first of \<open>update_user_with_id\<close>, raises.
\<close>

theorem update_user_store_failure:
  "fst (update_user demo_bcrypt ''cd'' 2000 alice_credentials rename_request
          (alice_table\<lparr>faults := [False, True]\<rparr>)) = Inr unauthorized"
  by (simp add: update_user_def update_user_with_id_def get_user_from_email_def roundtrip_def
      alice_table_def alice_def alice_credentials_def demo_bcrypt_def demo_checkpw_def
      rename_request_def truthy_def)

text \<open>
  Claim C9. A signup whose body gives no timestamps stores, in the two timestamp
  columns, the two defaults of the class, the times at which the class body ran when
  the module was imported: the handler reads no clock.
\<close>

theorem signup_timestamps_are_class_default:
  "\<forall>cls.
     map account_created
       (rows (snd (post_signup cls demo_bcrypt ''ab'' alice_body empty_table))) =
       [Some (Datetime (created_default cls))] \<and>
     map account_updated
       (rows (snd (post_signup cls demo_bcrypt ''ab'' alice_body empty_table))) =
       [Some (Datetime (updated_default cls))]"
  by (simp add: post_signup_def signup_def create_user_def roundtrip_def violates_def
      is_raw_def fill_def bind_stamp_def User_from_body_def alice_body_def empty_table_def
      demo_bcrypt_def demo_hashpw_def)

end
